theory Spec2Isabelle
  imports Complex_Main
begin

section \<open>Characters and the regular expressions of the grade classifier\<close>

text \<open>
  Titles are Python \<open>str\<close> values. The model covers the code points below 256, one
  \<^typ>\<open>char\<close> each, with the classes Python's \<open>re\<close> module and \<open>str.lower\<close> assign to
  them: \<open>\d\<close> is the decimal digits, \<open>\s\<close> the Unicode white space, \<open>\w\<close> the
  alphanumerics and the underscore.
\<close>

definition code :: "char \<Rightarrow> nat" where
  "code c = of_char c"

definition is_digit :: "char \<Rightarrow> bool" where
  "is_digit c = (48 \<le> code c \<and> code c \<le> 57)"

definition is_space :: "char \<Rightarrow> bool" where
  "is_space c =
     ((9 \<le> code c \<and> code c \<le> 13) \<or> (28 \<le> code c \<and> code c \<le> 32)
      \<or> code c = 133 \<or> code c = 160)"

definition is_word :: "char \<Rightarrow> bool" where
  "is_word c =
     ((48 \<le> code c \<and> code c \<le> 57) \<or> (65 \<le> code c \<and> code c \<le> 90) \<or> code c = 95
      \<or> (97 \<le> code c \<and> code c \<le> 122) \<or> code c = 170
      \<or> (178 \<le> code c \<and> code c \<le> 179) \<or> code c = 181
      \<or> (185 \<le> code c \<and> code c \<le> 186) \<or> (188 \<le> code c \<and> code c \<le> 190)
      \<or> (192 \<le> code c \<and> code c \<le> 214) \<or> (216 \<le> code c \<and> code c \<le> 246)
      \<or> 248 \<le> code c)"

definition is_upper :: "char \<Rightarrow> bool" where
  "is_upper c =
     ((65 \<le> code c \<and> code c \<le> 90) \<or> (192 \<le> code c \<and> code c \<le> 214)
      \<or> (216 \<le> code c \<and> code c \<le> 222))"

definition lower_char :: "char \<Rightarrow> char" where
  "lower_char c = (if is_upper c then char_of (code c + 32) else c)"

definition lower :: "string \<Rightarrow> string" where
  "lower s = map lower_char s"

text \<open>
  \<open>str.upper\<close> is used only to compare its result with \<open>"AU"\<close>. The three code points
  below 256 whose upper case lies outside that range or is two characters long (181, 223
  and 255) are left as they are: no upper case of theirs contains \<open>A\<close> or \<open>U\<close>.
\<close>

definition is_lower :: "char \<Rightarrow> bool" where
  "is_lower c =
     ((97 \<le> code c \<and> code c \<le> 122) \<or> (224 \<le> code c \<and> code c \<le> 246)
      \<or> (248 \<le> code c \<and> code c \<le> 254))"

definition upper_char :: "char \<Rightarrow> char" where
  "upper_char c = (if is_lower c then char_of (code c - 32) else c)"

definition upper :: "string \<Rightarrow> string" where
  "upper s = map upper_char s"

text \<open>
  The fragment of regular expressions the three patterns are written in, and a
  backtracking matcher for it. A matcher state is the character before the current
  position (\<open>None\<close> at the start of the string) and the rest of the string; \<open>run\<close>
  returns every state a match of the expression can end in, the greedy choice first.
\<close>

datatype re =
    Lit char        \<comment> \<open>a literal character\<close>
  | Dig             \<comment> \<open>\<open>\d\<close>\<close>
  | Sep             \<comment> \<open>\<open>[\s\-]\<close>\<close>
  | WB              \<comment> \<open>\<open>\b\<close>\<close>
  | Eps             \<comment> \<open>the empty expression\<close>
  | Seq re re       \<comment> \<open>concatenation\<close>
  | Opt re          \<comment> \<open>\<open>r?\<close>\<close>
  | DigPlus         \<comment> \<open>\<open>\d+\<close>\<close>

type_synonym mstate = "char option \<times> string"

fun word_before :: "char option \<Rightarrow> bool" where
  "word_before None = False"
| "word_before (Some c) = is_word c"

fun word_after :: "string \<Rightarrow> bool" where
  "word_after [] = False"
| "word_after (c # cs) = is_word c"

fun digits_plus :: "string \<Rightarrow> mstate list" where
  "digits_plus [] = []"
| "digits_plus (c # cs) = (if is_digit c then digits_plus cs @ [(Some c, cs)] else [])"

fun run :: "re \<Rightarrow> mstate \<Rightarrow> mstate list" where
  "run (Lit a) (p, []) = []"
| "run (Lit a) (p, c # cs) = (if c = a then [(Some c, cs)] else [])"
| "run Dig (p, []) = []"
| "run Dig (p, c # cs) = (if is_digit c then [(Some c, cs)] else [])"
| "run Sep (p, []) = []"
| "run Sep (p, c # cs) = (if is_space c \<or> c = CHR ''-'' then [(Some c, cs)] else [])"
| "run WB (p, s) = (if word_before p \<noteq> word_after s then [(p, s)] else [])"
| "run Eps st = [st]"
| "run (Seq r1 r2) st = concat (map (run r2) (run r1 st))"
| "run (Opt r) st = run r st @ [st]"
| "run DigPlus (p, s) = digits_plus s"

fun seq :: "re list \<Rightarrow> re" where
  "seq [] = Eps"
| "seq (r # rs) = Seq r (seq rs)"

definition lit :: "string \<Rightarrow> re" where
  "lit s = seq (map Lit s)"

text \<open>\<open>pat.search(t)\<close>: the expression matches at some position of \<open>t\<close>.\<close>

fun search_from :: "re \<Rightarrow> char option \<Rightarrow> string \<Rightarrow> bool" where
  "search_from r p [] = (run r (p, []) \<noteq> [])"
| "search_from r p (c # cs) = (run r (p, c # cs) \<noteq> [] \<or> search_from r (Some c) cs)"

definition re_search :: "re \<Rightarrow> string \<Rightarrow> bool" where
  "re_search r t = search_from r None t"

text \<open>The character a string ends with, as the position after it sees it.\<close>

definition prev_char :: "string \<Rightarrow> char option" where
  "prev_char pre = (if pre = [] then None else Some (last pre))"

section \<open>The grade classifier\<close>

datatype grade = Raw | PSA | CGC | BGS

text \<open>\<open>\b<company>[\s\-]?(\d{1,2}(?:\.\d+)?)\b\<close>\<close>

definition grade_pattern :: "string \<Rightarrow> re" where
  "grade_pattern company =
     seq [WB, lit company, Opt Sep, Dig, Opt Dig, Opt (seq [Lit CHR ''.'', DigPlus]), WB]"

definition patterns :: "(grade \<times> re) list" where
  "patterns =
     [(PSA, grade_pattern ''psa''), (BGS, grade_pattern ''bgs''), (CGC, grade_pattern ''cgc'')]"

fun first_match :: "(grade \<times> re) list \<Rightarrow> string \<Rightarrow> grade" where
  "first_match [] t = Raw"
| "first_match ((label, pat) # ps) t = (if re_search pat t then label else first_match ps t)"

text \<open>The title is \<open>None\<close> when the listing has none.\<close>

fun detect_grade_from_title :: "string option \<Rightarrow> grade" where
  "detect_grade_from_title None = Raw"
| "detect_grade_from_title (Some title) =
     (if title = [] then Raw else first_match patterns (lower title))"

section \<open>The outside world\<close>

text \<open>
  Prices are Python floats; the model computes with exact rationals (no rounding error, no
  \<open>nan\<close>, no infinity). Instants are naive UTC datetimes, counted in microseconds.
\<close>

type_synonym price = rat
type_synonym instant = int

text \<open>
  A listing summary, as far as the code reads it: \<open>title\<close> is \<open>item.get("title")\<close>;
  \<open>price\<close> is the value of \<open>float(item.get("price", {}).get("value"))\<close>, \<open>None\<close> when
  that expression raises; \<open>imageUrl\<close> is \<open>item["image"]["imageUrl"]\<close>, \<open>None\<close> when either
  key is absent; \<open>thumbnailImages\<close> holds the \<open>imageUrl\<close> of each thumbnail.
\<close>

record item =
  title :: "string option"
  price :: "price option"
  imageUrl :: "string option"
  thumbnailImages :: "string option list"

text \<open>
  What \<open>requests.get\<close> does: it raises, or it returns a response with a status code and
  a body; the body is \<open>None\<close> when \<open>r.json()\<close> or the access to its keys raises.
\<close>

datatype 'a http_outcome = Raises | Response nat "'a option"

datatype request =
    Ebay_browse string string nat
  | Google_images string
  | Duckduckgo_images string

record claims =
  sub :: string
  exp :: instant

text \<open>
  The configuration, the clock, the three remote services and the two libraries
  (password hashing and JSON web tokens) a request handler runs against. The body of the
  marketplace is its \<open>itemSummaries\<close> (\<open>None\<close> when the key is absent); the body of an
  image provider is the \<open>link\<close> (or \<open>image\<close>) of each of its results. \<open>jwt_decode\<close> is
  \<open>None\<close> when decoding raises, and else the \<open>sub\<close> of the payload.
\<close>

record env =
  utcnow :: instant
  EBAY_OAUTH_TOKEN :: string
  GOOGLE_API_KEY :: string
  GOOGLE_CX :: string
  ACCESS_TOKEN_EXPIRE_MINUTES :: int
  ebay_get :: "string \<Rightarrow> string \<Rightarrow> nat \<Rightarrow> item list option http_outcome"
  google_get :: "string \<Rightarrow> string option list http_outcome"
  duckduckgo_get :: "string \<Rightarrow> string option list http_outcome"
  verify_password :: "string \<Rightarrow> string \<Rightarrow> bool"
  jwt_encode :: "claims \<Rightarrow> string"
  jwt_decode :: "string \<Rightarrow> string option option"

definition SEARCH_LIMIT_PER_GRADE :: nat where
  "SEARCH_LIMIT_PER_GRADE = 3"

definition SAVED_SEARCH_EXPIRY_DAYS :: int where
  "SAVED_SEARCH_EXPIRY_DAYS = 7"

definition timedelta_days :: "int \<Rightarrow> int" where
  "timedelta_days d = d * 86400000000"

definition timedelta_minutes :: "int \<Rightarrow> int" where
  "timedelta_minutes m = m * 60000000"

text \<open>\<open>r.raise_for_status()\<close> raises on the status codes 400 to 599.\<close>

definition raise_for_status :: "nat \<Rightarrow> bool" where
  "raise_for_status st = (400 \<le> st \<and> st < 600)"

text \<open>Python's truth value of an optional string.\<close>

fun truthy :: "string option \<Rightarrow> bool" where
  "truthy None = False"
| "truthy (Some s) = (s \<noteq> [])"

fun first_of :: "string option list \<Rightarrow> string option" where
  "first_of [] = None"
| "first_of (x # xs) = x"

section \<open>Image providers and the marketplace client\<close>

text \<open>Each client returns its value and the requests it has sent.\<close>

definition duckduckgo_image :: "env \<Rightarrow> string \<Rightarrow> string option \<times> request list" where
  "duckduckgo_image e cname =
     (case duckduckgo_get e cname of
        Raises \<Rightarrow> None
      | Response st None \<Rightarrow> None
      | Response st (Some results) \<Rightarrow> first_of results,
      [Duckduckgo_images cname])"

definition google_image_search :: "env \<Rightarrow> string \<Rightarrow> string option \<times> request list" where
  "google_image_search e cname =
     (if GOOGLE_API_KEY e = [] \<or> GOOGLE_CX e = [] then (None, [])
      else
        (case google_get e cname of
           Raises \<Rightarrow> None
         | Response st body \<Rightarrow>
             if raise_for_status st then None
             else (case body of None \<Rightarrow> None | Some items \<Rightarrow> first_of items),
         [Google_images cname]))"

definition ebay_search_items ::
  "env \<Rightarrow> string \<Rightarrow> string \<Rightarrow> nat \<Rightarrow> item list \<times> request list" where
  "ebay_search_items e keyword marketplace limit =
     (if EBAY_OAUTH_TOKEN e = [] then ([], [])
      else
        (case ebay_get e keyword marketplace limit of
           Raises \<Rightarrow> []
         | Response st body \<Rightarrow>
             if raise_for_status st then []
             else (case body of
                     None \<Rightarrow> []
                   | Some None \<Rightarrow> []
                   | Some (Some itemSummaries) \<Rightarrow> itemSummaries),
         [Ebay_browse keyword marketplace limit]))"

section \<open>Price aggregation and image resolution\<close>

text \<open>The image a listing offers: the primary image, else the first thumbnail.\<close>

definition item_image :: "item \<Rightarrow> string option" where
  "item_image it =
     (let img = (if truthy (imageUrl it) then imageUrl it else None)
      in if \<not> truthy img \<and> thumbnailImages it \<noteq> [] then first_of (thumbnailImages it)
         else img)"

text \<open>
  One round of the loop over the listings; an unparsable price ends the round
  (\<open>continue\<close>). The test \<open>bucket not in grades\<close> has no branch here: the classifier
  returns one of the four keys.
\<close>

definition gather_step ::
  "(grade \<Rightarrow> price list) \<times> string option \<Rightarrow> item \<Rightarrow> (grade \<Rightarrow> price list) \<times> string option"
where
  "gather_step st it =
     (case st of (grades, image_url) \<Rightarrow>
        (case price it of
           None \<Rightarrow> (grades, image_url)
         | Some p \<Rightarrow>
             (let bucket = detect_grade_from_title (title it);
                  grades' = (if length (grades bucket) < SEARCH_LIMIT_PER_GRADE
                             then grades(bucket := grades bucket @ [p]) else grades);
                  image_url' = (if \<not> truthy image_url
                                then (let img = item_image it
                                      in if truthy img then img else image_url)
                                else image_url)
              in (grades', image_url'))))"

definition gather_loop :: "item list \<Rightarrow> (grade \<Rightarrow> price list) \<times> string option" where
  "gather_loop items = foldl gather_step (\<lambda>_. [], None) items"

definition marketplace_of :: "string \<Rightarrow> string" where
  "marketplace_of reg = (if upper reg = ''AU'' then ''EBAY_AU'' else ''EBAY_US'')"

text \<open>\<open>google_image_search(card_name) or duckduckgo_image(card_name) or ""\<close>\<close>

definition image_fallback :: "env \<Rightarrow> string \<Rightarrow> string \<times> request list" where
  "image_fallback e cname =
     (case google_image_search e cname of (g, reqs_g) \<Rightarrow>
        (case g of
           Some u \<Rightarrow>
             if u \<noteq> [] then (u, reqs_g)
             else (case duckduckgo_image e cname of (d, reqs_d) \<Rightarrow>
                     (case d of Some v \<Rightarrow> (v, reqs_g @ reqs_d) | None \<Rightarrow> ([], reqs_g @ reqs_d)))
         | None \<Rightarrow>
             (case duckduckgo_image e cname of (d, reqs_d) \<Rightarrow>
                (case d of Some v \<Rightarrow> (v, reqs_g @ reqs_d) | None \<Rightarrow> ([], reqs_g @ reqs_d)))))"

definition gather_prices_by_grade ::
  "env \<Rightarrow> string \<Rightarrow> string \<Rightarrow> (grade \<Rightarrow> price list) \<times> string \<times> request list" where
  "gather_prices_by_grade e cname reg =
     (case ebay_search_items e cname (marketplace_of reg) 50 of (items, reqs) \<Rightarrow>
        (case gather_loop items of (grades, image_url) \<Rightarrow>
           (case image_url of
              Some u \<Rightarrow>
                if u \<noteq> [] then (grades, u, reqs)
                else (case image_fallback e cname of (img, reqs') \<Rightarrow> (grades, img, reqs @ reqs'))
            | None \<Rightarrow>
                (case image_fallback e cname of (img, reqs') \<Rightarrow> (grades, img, reqs @ reqs')))))"

text \<open>\<open>round(x, 2)\<close>: to the nearest hundredth, a tie to the even one.\<close>

definition round_half_even :: "rat \<Rightarrow> int" where
  "round_half_even x =
     (let f = \<lfloor>x\<rfloor>; d = x - of_int f
      in if d < 1 / 2 then f else if 1 / 2 < d then f + 1 else if even f then f else f + 1)"

definition round2 :: "rat \<Rightarrow> rat" where
  "round2 x = of_int (round_half_even (x * 100)) / 100"

text \<open>\<open>round(sum(v)/len(v),2) if v else 0\<close>\<close>

definition average :: "price list \<Rightarrow> price" where
  "average v = (if v \<noteq> [] then round2 (sum_list v / of_nat (length v)) else 0)"

section \<open>The database\<close>

text \<open>
  The two tables, as lists of rows. \<open>last_result\<close> is the JSON text of the payload and
  \<open>last_updated\<close> the ISO text of an instant; the model keeps the payload and the instant
  themselves (the code writes \<open>json.dumps\<close> and \<open>isoformat\<close> and reads with \<open>json.loads\<close>
  and \<open>fromisoformat\<close>). \<open>None\<close> is a column that is NULL or the empty text.
\<close>

record payload =
  avg :: "grade \<Rightarrow> price"
  prices :: "grade \<Rightarrow> price list"

record user_row =
  users_id :: nat
  username :: string
  password_hash :: string

record search_row =
  searches_id :: nat
  user_id :: nat
  card_name :: string
  region :: string
  last_result :: "payload option"
  last_image :: "string option"
  last_updated :: "instant option"
  confirmed :: bool

record database =
  users :: "user_row list"
  searches :: "search_row list"

text \<open>\<open>searches.select().where((user_id == uid) & (card_name == cname))\<close>, first row.\<close>

definition fetch_search :: "database \<Rightarrow> nat \<Rightarrow> string \<Rightarrow> search_row option" where
  "fetch_search db uid cname =
     find (\<lambda>r. user_id r = uid \<and> card_name r = cname) (searches db)"

definition fetch_user :: "database \<Rightarrow> string \<Rightarrow> user_row option" where
  "fetch_user db uname = find (\<lambda>u. username u = uname) (users db)"

text \<open>\<open>searches.update().where(searches.c.id == i).values(...)\<close>\<close>

definition update_search :: "database \<Rightarrow> nat \<Rightarrow> (search_row \<Rightarrow> search_row) \<Rightarrow> database" where
  "update_search db i f =
     db\<lparr>searches := map (\<lambda>r. if searches_id r = i then f r else r) (searches db)\<rparr>"

text \<open>\<open>searches.insert().values(...)\<close>: the new row gets an unused primary key.\<close>

definition fresh_id :: "search_row list \<Rightarrow> nat" where
  "fresh_id rows = Suc (foldr max (map searches_id rows) 0)"

definition insert_search :: "database \<Rightarrow> (nat \<Rightarrow> search_row) \<Rightarrow> database" where
  "insert_search db mk = db\<lparr>searches := searches db @ [mk (fresh_id (searches db))]\<rparr>"

section \<open>Authentication\<close>

datatype http_exception = HTTPException nat string

definition credentials_exception :: http_exception where
  "credentials_exception = HTTPException 401 ''Could not validate credentials''"

definition create_access_token :: "env \<Rightarrow> string \<Rightarrow> int option \<Rightarrow> string" where
  "create_access_token e data_sub expires_delta =
     (let delta = (case expires_delta of
                     Some d \<Rightarrow> if d \<noteq> 0 then d
                               else timedelta_minutes (ACCESS_TOKEN_EXPIRE_MINUTES e)
                   | None \<Rightarrow> timedelta_minutes (ACCESS_TOKEN_EXPIRE_MINUTES e))
      in jwt_encode e \<lparr>sub = data_sub, exp = utcnow e + delta\<rparr>)"

definition get_current_user :: "env \<Rightarrow> database \<Rightarrow> string \<Rightarrow> http_exception + user_row" where
  "get_current_user e db token =
     (case jwt_decode e token of
        None \<Rightarrow> Inl credentials_exception
      | Some None \<Rightarrow> Inl credentials_exception
      | Some (Some uname) \<Rightarrow>
          (case fetch_user db uname of
             None \<Rightarrow> Inl credentials_exception
           | Some user \<Rightarrow> Inr user))"

record token_response =
  access_token :: string
  token_type :: string

definition login_for_access_token ::
  "env \<Rightarrow> database \<Rightarrow> string \<Rightarrow> string \<Rightarrow> http_exception + token_response" where
  "login_for_access_token e db form_username form_password =
     (case fetch_user db form_username of
        None \<Rightarrow> Inl (HTTPException 400 ''Incorrect username or password'')
      | Some user \<Rightarrow>
          if \<not> verify_password e form_password (password_hash user)
          then Inl (HTTPException 400 ''Incorrect username or password'')
          else Inr \<lparr>access_token = create_access_token e (username user) None,
                    token_type = ''bearer''\<rparr>)"

section \<open>The request handlers\<close>

text \<open>
  A handler takes the world of its request, the database and its form fields, and
  returns its response (or the exception it raises) and the database it leaves.
\<close>

record search_response =
  sr_ok :: bool
  sr_result :: payload
  sr_image :: string

record refresh_response =
  rr_ok :: bool
  rr_avg :: "grade \<Rightarrow> price"
  rr_image :: string

record saved_entry =
  se_card_name :: string
  se_region :: string
  se_last_result :: "payload option"
  se_last_image :: "string option"
  se_last_updated :: "instant option"
  se_confirmed :: bool
  se_expired :: bool

definition api_search ::
  "env \<Rightarrow> database \<Rightarrow> string \<Rightarrow> string \<Rightarrow> string \<Rightarrow> (http_exception + search_response) \<times> database"
where
  "api_search e db cname reg token =
     (case get_current_user e db token of
        Inl exn \<Rightarrow> (Inl exn, db)
      | Inr current \<Rightarrow>
          (case gather_prices_by_grade e cname reg of (grades, image_url, reqs) \<Rightarrow>
             (let pl = \<lparr>avg = (\<lambda>k. average (grades k)), prices = grades\<rparr>;
                  now = utcnow e
              in (Inr \<lparr>sr_ok = True, sr_result = pl, sr_image = image_url\<rparr>,
                  (case fetch_search db (users_id current) cname of
                     Some existing \<Rightarrow>
                       update_search db (searches_id existing)
                         (\<lambda>r. r\<lparr>last_result := Some pl, last_image := Some image_url,
                                 last_updated := Some now, confirmed := False\<rparr>)
                   | None \<Rightarrow>
                       insert_search db
                         (\<lambda>i. \<lparr>searches_id = i, user_id = users_id current, card_name = cname,
                                region = reg, last_result = Some pl,
                                last_image = Some image_url, last_updated = Some now,
                                confirmed = False\<rparr>))))))"

definition api_refresh ::
  "env \<Rightarrow> database \<Rightarrow> string \<Rightarrow> string \<Rightarrow> (http_exception + refresh_response) \<times> database"
where
  "api_refresh e db cname token =
     (case get_current_user e db token of
        Inl exn \<Rightarrow> (Inl exn, db)
      | Inr current \<Rightarrow>
          (case fetch_search db (users_id current) cname of
             None \<Rightarrow> (Inl (HTTPException 404 ''not found''), db)
           | Some row \<Rightarrow>
               (case gather_prices_by_grade e cname (region row) of
                  (grades, image_url, reqs) \<Rightarrow>
                    (let av = (\<lambda>k. average (grades k));
                         now = utcnow e
                     in (Inr \<lparr>rr_ok = True, rr_avg = av, rr_image = image_url\<rparr>,
                         update_search db (searches_id row)
                           (\<lambda>r. r\<lparr>last_result := Some \<lparr>avg = av, prices = grades\<rparr>,
                                   last_image := Some image_url, last_updated := Some now,
                                   confirmed := False\<rparr>))))))"

definition api_confirm_image ::
  "env \<Rightarrow> database \<Rightarrow> string \<Rightarrow> string \<Rightarrow> string \<Rightarrow> (http_exception + bool) \<times> database"
where
  "api_confirm_image e db cname image_url token =
     (case get_current_user e db token of
        Inl exn \<Rightarrow> (Inl exn, db)
      | Inr current \<Rightarrow>
          (case fetch_search db (users_id current) cname of
             None \<Rightarrow> (Inl (HTTPException 404 ''not found''), db)
           | Some row \<Rightarrow>
               (Inr True,
                update_search db (searches_id row)
                  (\<lambda>r. r\<lparr>last_image := Some image_url, confirmed := True,
                          last_updated := Some (utcnow e)\<rparr>))))"

text \<open>
  \<open>not last_updated or (utcnow() - fromisoformat(last_updated) > timedelta(days=7))\<close>
\<close>

definition expired :: "instant \<Rightarrow> instant option \<Rightarrow> bool" where
  "expired now lu =
     (case lu of
        None \<Rightarrow> True
      | Some t \<Rightarrow> now - t > timedelta_days SAVED_SEARCH_EXPIRY_DAYS)"

definition saved_entry_of :: "env \<Rightarrow> search_row \<Rightarrow> saved_entry" where
  "saved_entry_of e r =
     \<lparr>se_card_name = card_name r, se_region = region r, se_last_result = last_result r,
      se_last_image = last_image r, se_last_updated = last_updated r,
      se_confirmed = confirmed r, se_expired = expired (utcnow e) (last_updated r)\<rparr>"

definition api_saved :: "env \<Rightarrow> database \<Rightarrow> string \<Rightarrow> http_exception + saved_entry list" where
  "api_saved e db token =
     (case get_current_user e db token of
        Inl exn \<Rightarrow> Inl exn
      | Inr current \<Rightarrow>
          Inr (map (saved_entry_of e)
                 (filter (\<lambda>r. user_id r = users_id current) (searches db))))"

section \<open>What the aggregation is expected to collect\<close>


text \<open>A listing the loop can take an image from: its price parses and it has an image.\<close>

definition offers_image :: "item \<Rightarrow> bool" where
  "offers_image it = (price it \<noteq> None \<and> truthy (item_image it))"

section \<open>Sequences of operations on the store\<close>

text \<open>
  The three operations that write a saved search, each with the world its request runs
  in; \<open>perform\<close> is the database the handler leaves, also when it raises.
\<close>

datatype operation =
    Search string string string
  | Refresh string string
  | Confirm_image string string string

fun perform :: "database \<Rightarrow> env \<times> operation \<Rightarrow> database" where
  "perform db (e, Search cname reg token) = snd (api_search e db cname reg token)"
| "perform db (e, Refresh cname token) = snd (api_refresh e db cname token)"
| "perform db (e, Confirm_image cname image_url token) =
     snd (api_confirm_image e db cname image_url token)"

definition run_ops :: "database \<Rightarrow> (env \<times> operation) list \<Rightarrow> database" where
  "run_ops db ops = foldl perform db ops"

fun is_confirm :: "operation \<Rightarrow> bool" where
  "is_confirm (Confirm_image cname image_url token) = True"
| "is_confirm (Search cname reg token) = False"
| "is_confirm (Refresh cname token) = False"

section \<open>Example worlds\<close>

definition status_code :: "http_exception \<Rightarrow> nat" where
  "status_code exn = (case exn of HTTPException st detail \<Rightarrow> st)"

definition ash :: user_row where
  "ash = \<lparr>users_id = 1, username = ''ash'', password_hash = ''hash:pikapika''\<rparr>"

text \<open>
  A world at a given instant whose marketplace answers every search with the given
  outcome; the first image provider finds nothing, the second one image.
\<close>

definition world :: "instant \<Rightarrow> item list option http_outcome \<Rightarrow> env" where
  "world t outcome =
     \<lparr>utcnow = t, EBAY_OAUTH_TOKEN = ''ebay-token'', GOOGLE_API_KEY = ''key'',
      GOOGLE_CX = ''cx'', ACCESS_TOKEN_EXPIRE_MINUTES = 60,
      ebay_get = (\<lambda>keyword marketplace limit. outcome),
      google_get = (\<lambda>q. Response 200 (Some [])),
      duckduckgo_get = (\<lambda>q. Response 200 (Some [Some ''http://ddg/pikachu.png''])),
      verify_password = (\<lambda>plain hashed. hashed = ''hash:'' @ plain),
      jwt_encode = (\<lambda>c. ''jwt:'' @ sub c),
      jwt_decode = (\<lambda>token. if token = ''jwt:ash'' then Some (Some ''ash'') else None)\<rparr>"

definition listing :: "string \<Rightarrow> price option \<Rightarrow> string option \<Rightarrow> item" where
  "listing t p img = \<lparr>title = Some t, price = p, imageUrl = img, thumbnailImages = []\<rparr>"

definition saved_row :: "string \<Rightarrow> instant option \<Rightarrow> bool \<Rightarrow> search_row" where
  "saved_row reg lu conf =
     \<lparr>searches_id = 1, user_id = 1, card_name = ''Pikachu'', region = reg,
      last_result = None, last_image = Some ''http://img/old.png'', last_updated = lu,
      confirmed = conf\<rparr>"

definition db_with :: "search_row list \<Rightarrow> database" where
  "db_with rows = \<lparr>users = [ash], searches = rows\<rparr>"

section \<open>Facts about the example worlds and the tables\<close>

lemma world_sel:
  "utcnow (world t out) = t"
  "EBAY_OAUTH_TOKEN (world t out) = ''ebay-token''"
  "GOOGLE_API_KEY (world t out) = ''key''"
  "GOOGLE_CX (world t out) = ''cx''"
  "ACCESS_TOKEN_EXPIRE_MINUTES (world t out) = 60"
  "ebay_get (world t out) keyword marketplace limit = out"
  "google_get (world t out) q = Response 200 (Some [])"
  "duckduckgo_get (world t out) q = Response 200 (Some [Some ''http://ddg/pikachu.png''])"
  "verify_password (world t out) plain hashed = (hashed = ''hash:'' @ plain)"
  "jwt_encode (world t out) c = ''jwt:'' @ sub c"
  by (simp_all add: world_def)

lemma db_with_sel:
  "users (db_with rows) = [ash]"
  "searches (db_with rows) = rows"
  by (simp_all add: db_with_def)

lemma ash_sel:
  "users_id ash = 1"
  "username ash = ''ash''"
  "password_hash ash = ''hash:pikapika''"
  by (simp_all add: ash_def)

lemma get_current_user_ash:
  "get_current_user (world t out) (db_with rows) ''jwt:ash'' = Inr ash"
  by (simp add: get_current_user_def world_def db_with_def fetch_user_def ash_def)

lemma find_map_preserving:
  "(\<And>x. P (g x) = P x) \<Longrightarrow> find P (map g xs) = map_option g (find P xs)"
  by (induction xs) simp_all

section \<open>Saved searches: the expired flag\<close>

text \<open>
  Claim C4, as the code has it. Every entry that \<open>api_saved\<close> returns carries an
  \<open>expired\<close> flag that is true exactly when \<open>last_updated\<close> is absent or more than seven
  days have passed since it: a record updated eight days ago is expired, one updated one
  day ago is not, and one updated exactly seven days ago is not expired either (the
  comparison is strict).
\<close>

theorem saved_expired_flag:
  assumes "api_saved e db token = Inr entries" and "x \<in> set entries"
  shows "se_expired x =
           (case se_last_updated x of
              None \<Rightarrow> True
            | Some t \<Rightarrow> 604800000000 < utcnow e - t)
         \<and> (se_last_updated x = Some (utcnow e - timedelta_days 8) \<longrightarrow> se_expired x)
         \<and> (se_last_updated x = Some (utcnow e - timedelta_days 1) \<longrightarrow> \<not> se_expired x)
         \<and> (se_last_updated x = Some (utcnow e - timedelta_days 7) \<longrightarrow> \<not> se_expired x)"
proof -
  from assms obtain r where x: "x = saved_entry_of e r"
    by (auto simp: api_saved_def split: sum.splits)
  have "se_expired x = expired (utcnow e) (se_last_updated x)"
    by (simp add: x saved_entry_of_def)
  then show ?thesis
    by (auto simp: expired_def timedelta_days_def SAVED_SEARCH_EXPIRY_DAYS_def
        split: option.splits)
qed

text \<open>A record saved on day 2 and listed on day 10 is expired.\<close>

theorem saved_expired_flag_witness:
  "api_saved (world (timedelta_days 10) Raises)
       (db_with [saved_row ''AU'' (Some (timedelta_days 2)) False]) ''jwt:ash''
     = Inr [saved_entry_of (world (timedelta_days 10) Raises)
              (saved_row ''AU'' (Some (timedelta_days 2)) False)]
   \<and> se_expired (saved_entry_of (world (timedelta_days 10) Raises)
              (saved_row ''AU'' (Some (timedelta_days 2)) False))"
proof -
  let ?e = "world (timedelta_days 10) Raises"
  let ?r = "saved_row ''AU'' (Some (timedelta_days 2)) False"
  have run: "api_saved ?e (db_with [?r]) ''jwt:ash'' = Inr [saved_entry_of ?e ?r]"
    by (simp add: api_saved_def get_current_user_ash db_with_sel saved_row_def ash_sel)
  have mem: "saved_entry_of ?e ?r \<in> set [saved_entry_of ?e ?r]"
    by simp
  have lu: "se_last_updated (saved_entry_of ?e ?r) = Some (utcnow ?e - timedelta_days 8)"
    by (simp add: saved_entry_of_def saved_row_def world_sel timedelta_days_def)
  from saved_expired_flag [OF run mem] lu run show ?thesis
    by (simp add: timedelta_days_def)
qed

text \<open>
  The boundary as the specification words it (exactly seven days counts as expired) does
  not hold: a record saved at instant 0 and listed exactly seven days later is returned
  with \<open>expired\<close> false.
\<close>

theorem saved_expiry_boundary_counterexample:
  "api_saved (world (timedelta_days 7) Raises) (db_with [saved_row ''AU'' (Some 0) False]) ''jwt:ash''
     = Inr [\<lparr>se_card_name = ''Pikachu'', se_region = ''AU'', se_last_result = None,
             se_last_image = Some ''http://img/old.png'', se_last_updated = Some 0,
             se_confirmed = False, se_expired = False\<rparr>]"
  by (simp add: api_saved_def get_current_user_ash saved_entry_of_def expired_def
      SAVED_SEARCH_EXPIRY_DAYS_def timedelta_days_def db_with_sel saved_row_def ash_sel
      world_sel)

section \<open>Facts about the store\<close>

lemma fetch_user_username:
  "fetch_user db uname = Some user \<Longrightarrow> username user = uname"
  by (auto simp: fetch_user_def find_Some_iff)

lemma fetch_search_update:
  assumes "fetch_search db uid cname = Some row"
    and "\<And>r. user_id (f r) = user_id r" and "\<And>r. card_name (f r) = card_name r"
  shows "fetch_search (update_search db (searches_id row) f) uid cname = Some (f row)"
proof -
  let ?g = "\<lambda>r. if searches_id r = searches_id row then f r else r"
  have "find (\<lambda>r. user_id r = uid \<and> card_name r = cname) (map ?g (searches db))
          = map_option ?g (find (\<lambda>r. user_id r = uid \<and> card_name r = cname) (searches db))"
    by (rule find_map_preserving) (simp add: assms(2,3))
  with assms(1) show ?thesis
    by (simp add: fetch_search_def update_search_def)
qed

lemma find_snoc_None: "find P xs = None \<Longrightarrow> find P (xs @ [x]) = (if P x then Some x else None)"
  by (induction xs) (simp_all split: if_splits)

lemma fetch_search_insert:
  assumes "fetch_search db uid cname = None"
    and "\<And>i. user_id (mk i) = uid" and "\<And>i. card_name (mk i) = cname"
  shows "fetch_search (insert_search db mk) uid cname = Some (mk (fresh_id (searches db)))"
  using assms by (simp add: fetch_search_def insert_search_def find_snoc_None)

lemma users_update_search: "users (update_search db i f) = users db"
  by (simp add: update_search_def)

lemma users_insert_search: "users (insert_search db mk) = users db"
  by (simp add: insert_search_def)

lemma searches_update_search:
  "searches (update_search db i f) = map (\<lambda>r. if searches_id r = i then f r else r) (searches db)"
  by (simp add: update_search_def)

lemma searches_insert_search:
  "searches (insert_search db mk) = searches db @ [mk (fresh_id (searches db))]"
  by (simp add: insert_search_def)

lemma get_current_user_world:
  "users db = [ash] \<Longrightarrow> get_current_user (world t out) db ''jwt:ash'' = Inr ash"
  by (simp add: get_current_user_def world_def fetch_user_def ash_def)

lemma users_api_search: "users (snd (api_search e db cname reg token)) = users db"
  by (simp add: api_search_def Let_def users_update_search users_insert_search
      split: sum.splits prod.splits option.splits)

section \<open>The pipeline in the example worlds\<close>

lemma marketplace_of_examples:
  "marketplace_of ''AU'' = ''EBAY_AU''"
  "marketplace_of ''au'' = ''EBAY_AU''"
  "marketplace_of ''US'' = ''EBAY_US''"
  by code_simp+

lemma gather_loop_Nil: "gather_loop [] = (\<lambda>_. [], None)"
  by (simp add: gather_loop_def)

lemma image_fallback_world:
  "image_fallback (world t out) cname
     = (''http://ddg/pikachu.png'', [Google_images cname, Duckduckgo_images cname])"
  by (simp add: image_fallback_def google_image_search_def duckduckgo_image_def world_sel
      raise_for_status_def)

lemma gather_world_Raises:
  "gather_prices_by_grade (world t Raises) cname reg
     = (\<lambda>_. [], ''http://ddg/pikachu.png'',
        [Ebay_browse cname (marketplace_of reg) 50, Google_images cname,
         Duckduckgo_images cname])"
  by (simp add: gather_prices_by_grade_def ebay_search_items_def world_sel gather_loop_Nil
      image_fallback_world)

lemma gather_requests_head:
  assumes "gather_prices_by_grade e cname reg = (grades, img, reqs)"
    and "EBAY_OAUTH_TOKEN e \<noteq> []"
  shows "\<exists>rest. reqs = Ebay_browse cname (marketplace_of reg) 50 # rest"
  using assms
  by (auto simp: gather_prices_by_grade_def ebay_search_items_def
      split: prod.splits option.splits if_splits)

section \<open>Login\<close>

text \<open>
  Claim C9, as the code has it. A login with an unknown user name, or with a password
  that does not verify against the stored hash, fails with an HTTP 400 exception whose
  detail is \<open>Incorrect username or password\<close>; with valid credentials it returns a bearer
  token that encodes the user name as \<open>sub\<close> and, as \<open>exp\<close>, the current instant plus the
  configured number of minutes.
\<close>

theorem login_outcomes:
  "((fetch_user db uname = None
       \<or> (\<exists>user. fetch_user db uname = Some user
              \<and> \<not> verify_password e pw (password_hash user)))
      \<longrightarrow> login_for_access_token e db uname pw
            = Inl (HTTPException 400 ''Incorrect username or password''))
   \<and> ((\<exists>user. fetch_user db uname = Some user \<and> verify_password e pw (password_hash user))
      \<longrightarrow> login_for_access_token e db uname pw
            = Inr \<lparr>access_token =
                     jwt_encode e \<lparr>sub = uname,
                       exp = utcnow e + ACCESS_TOKEN_EXPIRE_MINUTES e * 60000000\<rparr>,
                   token_type = ''bearer''\<rparr>)"
  by (auto simp: login_for_access_token_def create_access_token_def timedelta_minutes_def
      dest: fetch_user_username)

theorem login_outcomes_witness:
  "fetch_user (db_with []) ''ash'' = Some ash
   \<and> verify_password (world 0 Raises) ''pikapika'' (password_hash ash)
   \<and> login_for_access_token (world 0 Raises) (db_with []) ''ash'' ''pikapika''
       = Inr \<lparr>access_token = ''jwt:ash'', token_type = ''bearer''\<rparr>
   \<and> fetch_user (db_with []) ''misty'' = None
   \<and> login_for_access_token (world 0 Raises) (db_with []) ''misty'' ''togepi''
       = Inl (HTTPException 400 ''Incorrect username or password'')"
proof -
  have f: "fetch_user (db_with []) ''ash'' = Some ash"
    by (simp add: fetch_user_def db_with_sel ash_sel)
  have v: "verify_password (world 0 Raises) ''pikapika'' (password_hash ash)"
    by (simp add: world_sel ash_sel)
  have n: "fetch_user (db_with []) ''misty'' = None"
    by (simp add: fetch_user_def db_with_sel ash_sel)
  from login_outcomes [of "db_with []" "''ash''" "world 0 Raises" "''pikapika''"]
    login_outcomes [of "db_with []" "''misty''" "world 0 Raises" "''togepi''"] f v n
  show ?thesis
    by (simp add: world_sel)
qed

text \<open>
  The failure is not of the Unauthorized class (status 401), which is what
  \<open>credentials_exception\<close> uses: the status of a failed login is 400.
\<close>

theorem login_status_counterexample:
  "login_for_access_token (world 0 Raises) (db_with []) ''misty'' ''togepi''
     = Inl (HTTPException 400 ''Incorrect username or password'')
   \<and> status_code (HTTPException 400 ''Incorrect username or password'') \<noteq> 401"
  by (simp add: login_for_access_token_def fetch_user_def db_with_sel ash_sel status_code_def)

section \<open>Refresh and confirm need an existing record\<close>

text \<open>
  Claim C6. For an authenticated user with no record for the card name, \<open>api_refresh\<close>
  and \<open>api_confirm_image\<close> both raise the 404 exception and leave the database as it
  was. When a record exists, \<open>api_refresh\<close> runs the pipeline with the region stored in
  the record (its marketplace request carries that region's marketplace), answers with
  the new averages and image, and overwrites the record's result, image and timestamp.
\<close>

theorem refresh_confirm_not_found:
  assumes "get_current_user e db token = Inr current"
  shows "(fetch_search db (users_id current) cname = None \<longrightarrow>
            api_refresh e db cname token = (Inl (HTTPException 404 ''not found''), db)
          \<and> api_confirm_image e db cname image_url token
              = (Inl (HTTPException 404 ''not found''), db))
       \<and> (\<forall>row grades img reqs.
            fetch_search db (users_id current) cname = Some row
            \<and> gather_prices_by_grade e cname (region row) = (grades, img, reqs) \<longrightarrow>
            fst (api_refresh e db cname token)
              = Inr \<lparr>rr_ok = True, rr_avg = (\<lambda>k. average (grades k)), rr_image = img\<rparr>
          \<and> fetch_search (snd (api_refresh e db cname token)) (users_id current) cname
              = Some (row\<lparr>last_result := Some \<lparr>avg = (\<lambda>k. average (grades k)), prices = grades\<rparr>,
                          last_image := Some img, last_updated := Some (utcnow e),
                          confirmed := False\<rparr>))"
  using assms
  by (auto simp: api_refresh_def api_confirm_image_def fetch_search_update Let_def)

theorem refresh_confirm_not_found_witness:
  "get_current_user (world 9 Raises) (db_with []) ''jwt:ash'' = Inr ash
   \<and> fetch_search (db_with []) (users_id ash) ''Pikachu'' = None
   \<and> api_refresh (world 9 Raises) (db_with []) ''Pikachu'' ''jwt:ash''
       = (Inl (HTTPException 404 ''not found''), db_with [])
   \<and> api_confirm_image (world 9 Raises) (db_with []) ''Pikachu'' ''http://img/new.png'' ''jwt:ash''
       = (Inl (HTTPException 404 ''not found''), db_with [])
   \<and> fetch_search (db_with [saved_row ''US'' (Some 0) True]) (users_id ash) ''Pikachu''
       = Some (saved_row ''US'' (Some 0) True)
   \<and> fetch_search
        (snd (api_refresh (world 9 Raises) (db_with [saved_row ''US'' (Some 0) True])
               ''Pikachu'' ''jwt:ash''))
        (users_id ash) ''Pikachu''
       = Some ((saved_row ''US'' (Some 0) True)
            \<lparr>last_result := Some \<lparr>avg = (\<lambda>k. average []), prices = (\<lambda>_. [])\<rparr>,
             last_image := Some ''http://ddg/pikachu.png'', last_updated := Some 9,
             confirmed := False\<rparr>)"
proof -
  let ?e = "world 9 Raises"
  let ?row = "saved_row ''US'' (Some 0) True"
  have none: "fetch_search (db_with []) (users_id ash) ''Pikachu'' = None"
    by (simp add: fetch_search_def db_with_sel)
  have some: "fetch_search (db_with [?row]) (users_id ash) ''Pikachu'' = Some ?row"
    by (simp add: fetch_search_def db_with_sel saved_row_def ash_sel)
  have g: "gather_prices_by_grade ?e ''Pikachu'' (region ?row)
             = (\<lambda>_. [], ''http://ddg/pikachu.png'',
                [Ebay_browse ''Pikachu'' (marketplace_of (region ?row)) 50,
                 Google_images ''Pikachu'', Duckduckgo_images ''Pikachu''])"
    by (rule gather_world_Raises)
  from refresh_confirm_not_found [OF get_current_user_ash [of 9 Raises "[]"],
      where cname = "''Pikachu''" and image_url = "''http://img/new.png''"] none
  have a: "api_refresh ?e (db_with []) ''Pikachu'' ''jwt:ash''
             = (Inl (HTTPException 404 ''not found''), db_with [])
           \<and> api_confirm_image ?e (db_with []) ''Pikachu'' ''http://img/new.png'' ''jwt:ash''
             = (Inl (HTTPException 404 ''not found''), db_with [])"
    by simp
  from refresh_confirm_not_found [OF get_current_user_ash [of 9 Raises "[?row]"],
      where cname = "''Pikachu''"] some g
  have b: "fetch_search (snd (api_refresh ?e (db_with [?row]) ''Pikachu'' ''jwt:ash''))
             (users_id ash) ''Pikachu''
           = Some (?row\<lparr>last_result := Some \<lparr>avg = (\<lambda>k. average []), prices = (\<lambda>_. [])\<rparr>,
                last_image := Some ''http://ddg/pikachu.png'', last_updated := Some 9,
                confirmed := False\<rparr>)"
    by (simp add: world_sel)
  from a b none some show ?thesis
    by (simp add: get_current_user_ash)
qed

section \<open>A new search keeps the stored region\<close>

text \<open>
  Claim C10. When a record exists for the user and the card name, \<open>api_search\<close> answers
  with the result computed for the region of the request, overwrites result, image,
  timestamp and the confirmed flag of the record, and leaves the region of every record
  as it was; a later \<open>api_refresh\<close> of that card by the same user runs the pipeline with
  the region that was stored first.
\<close>

theorem research_keeps_region:
  assumes "get_current_user e db token = Inr current"
    and "fetch_search db (users_id current) cname = Some row"
    and "gather_prices_by_grade e cname reg = (grades, img, reqs)"
  shows "fst (api_search e db cname reg token)
           = Inr \<lparr>sr_ok = True,
                  sr_result = \<lparr>avg = (\<lambda>k. average (grades k)), prices = grades\<rparr>,
                  sr_image = img\<rparr>
       \<and> fetch_search (snd (api_search e db cname reg token)) (users_id current) cname
           = Some (row\<lparr>last_result := Some \<lparr>avg = (\<lambda>k. average (grades k)), prices = grades\<rparr>,
                       last_image := Some img, last_updated := Some (utcnow e),
                       confirmed := False\<rparr>)
       \<and> map region (searches (snd (api_search e db cname reg token)))
           = map region (searches db)
       \<and> (\<forall>e2 token2 grades2 img2 reqs2.
            get_current_user e2 (snd (api_search e db cname reg token)) token2 = Inr current
            \<and> gather_prices_by_grade e2 cname (region row) = (grades2, img2, reqs2) \<longrightarrow>
            fst (api_refresh e2 (snd (api_search e db cname reg token)) cname token2)
              = Inr \<lparr>rr_ok = True, rr_avg = (\<lambda>k. average (grades2 k)), rr_image = img2\<rparr>)"
proof -
  let ?db' = "snd (api_search e db cname reg token)"
  let ?row' = "row\<lparr>last_result := Some \<lparr>avg = (\<lambda>k. average (grades k)), prices = grades\<rparr>,
                   last_image := Some img, last_updated := Some (utcnow e),
                   confirmed := False\<rparr>"
  have resp: "fst (api_search e db cname reg token)
           = Inr \<lparr>sr_ok = True,
                  sr_result = \<lparr>avg = (\<lambda>k. average (grades k)), prices = grades\<rparr>,
                  sr_image = img\<rparr>"
    using assms by (simp add: api_search_def Let_def)
  have stored: "fetch_search ?db' (users_id current) cname = Some ?row'"
    using assms by (simp add: api_search_def Let_def fetch_search_update)
  have regions: "map region (searches ?db') = map region (searches db)"
    using assms by (simp add: api_search_def Let_def searches_update_search comp_def)
  have later: "fst (api_refresh e2 ?db' cname token2)
              = Inr \<lparr>rr_ok = True, rr_avg = (\<lambda>k. average (grades2 k)), rr_image = img2\<rparr>"
    if "get_current_user e2 ?db' token2 = Inr current"
      and "gather_prices_by_grade e2 cname (region row) = (grades2, img2, reqs2)"
    for e2 token2 grades2 img2 reqs2
    using that stored by (simp add: api_refresh_def Let_def)
  from resp stored regions later show ?thesis
    by blast
qed

theorem research_keeps_region_witness:
  "region (saved_row ''US'' (Some 0) True) \<noteq> ''AU''
   \<and> fetch_search
        (snd (api_search (world 9 Raises) (db_with [saved_row ''US'' (Some 0) True])
               ''Pikachu'' ''AU'' ''jwt:ash''))
        (users_id ash) ''Pikachu''
       = Some ((saved_row ''US'' (Some 0) True)
            \<lparr>last_result := Some \<lparr>avg = (\<lambda>k. average []), prices = (\<lambda>_. [])\<rparr>,
             last_image := Some ''http://ddg/pikachu.png'', last_updated := Some 9,
             confirmed := False\<rparr>)
   \<and> map region
        (searches (snd (api_search (world 9 Raises) (db_with [saved_row ''US'' (Some 0) True])
               ''Pikachu'' ''AU'' ''jwt:ash'')))
       = [''US'']
   \<and> fst (api_refresh (world 20 Raises)
            (snd (api_search (world 9 Raises) (db_with [saved_row ''US'' (Some 0) True])
                   ''Pikachu'' ''AU'' ''jwt:ash''))
            ''Pikachu'' ''jwt:ash'')
       = Inr \<lparr>rr_ok = True, rr_avg = (\<lambda>k. average []), rr_image = ''http://ddg/pikachu.png''\<rparr>"
proof -
  let ?row = "saved_row ''US'' (Some 0) True"
  let ?db = "db_with [?row]"
  let ?db' = "snd (api_search (world 9 Raises) ?db ''Pikachu'' ''AU'' ''jwt:ash'')"
  have some: "fetch_search ?db (users_id ash) ''Pikachu'' = Some ?row"
    by (simp add: fetch_search_def db_with_sel saved_row_def ash_sel)
  have auth2: "get_current_user (world 20 Raises) ?db' ''jwt:ash'' = Inr ash"
    by (rule get_current_user_world) (simp add: users_api_search db_with_sel)
  have r: "region ?row = ''US''"
    by (simp add: saved_row_def)
  note main = research_keeps_region [OF get_current_user_ash some gather_world_Raises,
      where reg = "''AU''"]
  from main have stored: "fetch_search ?db' (users_id ash) ''Pikachu''
       = Some (?row\<lparr>last_result := Some \<lparr>avg = (\<lambda>k. average []), prices = (\<lambda>_. [])\<rparr>,
             last_image := Some ''http://ddg/pikachu.png'', last_updated := Some 9,
             confirmed := False\<rparr>)"
    by (simp add: world_sel)
  from main have regions: "map region (searches ?db') = [''US'']"
    by (simp add: db_with_sel r)
  from main auth2 gather_world_Raises [of 20 "''Pikachu''" "region ?row"]
  have later: "fst (api_refresh (world 20 Raises) ?db' ''Pikachu'' ''jwt:ash'')
       = Inr \<lparr>rr_ok = True, rr_avg = (\<lambda>k. average []), rr_image = ''http://ddg/pikachu.png''\<rparr>"
    by blast
  from stored regions later r show ?thesis
    by simp
qed

section \<open>The confirmed flag\<close>

lemma search_clears_confirmed:
  assumes "get_current_user e db token = Inr current"
  shows "\<exists>row. fetch_search (snd (api_search e db cname reg token)) (users_id current) cname
           = Some row \<and> \<not> confirmed row"
proof (cases "fetch_search db (users_id current) cname")
  case None
  then show ?thesis using assms
    by (simp add: api_search_def Let_def fetch_search_insert split: prod.splits)
next
  case (Some row)
  then show ?thesis using assms
    by (simp add: api_search_def Let_def fetch_search_update split: prod.splits)
qed

lemma refresh_clears_confirmed:
  assumes "get_current_user e db token = Inr current"
    and "fetch_search db (users_id current) cname = Some row0"
  shows "\<exists>row. fetch_search (snd (api_refresh e db cname token)) (users_id current) cname
           = Some row \<and> \<not> confirmed row"
  using assms
  by (simp add: api_refresh_def Let_def fetch_search_update split: prod.splits)

lemma confirm_sets_confirmed:
  assumes "get_current_user e db token = Inr current"
    and "fetch_search db (users_id current) cname = Some row0"
  shows "\<exists>row. fetch_search (snd (api_confirm_image e db cname image_url token))
             (users_id current) cname = Some row
           \<and> confirmed row \<and> last_result row = last_result row0"
  using assms
  by (simp add: api_confirm_image_def fetch_search_update)

lemma perform_confirmed_subset:
  assumes "\<not> is_confirm op" and "r \<in> set (searches (perform db (e, op)))" and "confirmed r"
  shows "r \<in> set (searches db)"
proof (cases op)
  case (Search cname reg token)
  with assms(2,3) show ?thesis
    by (auto simp: api_search_def Let_def searches_update_search searches_insert_search
        split: sum.splits prod.splits option.splits if_splits)
next
  case (Refresh cname token)
  with assms(2,3) show ?thesis
    by (auto simp: api_refresh_def Let_def searches_update_search
        split: sum.splits prod.splits option.splits if_splits)
next
  case (Confirm_image cname image_url token)
  with assms(1) show ?thesis by simp
qed

lemma confirm_keeps_results:
  "map last_result (searches (snd (api_confirm_image e db cname image_url token)))
     = map last_result (searches db)"
  by (auto simp: api_confirm_image_def searches_update_search
      split: sum.splits option.splits)

lemma run_ops_confirmed_subset:
  assumes "\<forall>x \<in> set ops. \<not> is_confirm (snd x)"
    and "r \<in> set (searches (run_ops db ops))" and "confirmed r"
  shows "r \<in> set (searches db)"
  using assms unfolding run_ops_def
proof (induction ops arbitrary: db)
  case Nil
  then show ?case by simp
next
  case (Cons x ops)
  obtain e op where x: "x = (e, op)" by (cases x)
  from Cons.prems have "r \<in> set (searches (foldl perform (perform db x) ops))"
    by simp
  with Cons.IH [of "perform db x"] Cons.prems have "r \<in> set (searches (perform db x))"
    by simp
  with Cons.prems x show ?case
    by (auto intro: perform_confirmed_subset)
qed

lemma run_ops_confirm_keeps_results:
  assumes "\<forall>x \<in> set ops. is_confirm (snd x)"
  shows "map last_result (searches (run_ops db ops)) = map last_result (searches db)"
  using assms unfolding run_ops_def
proof (induction ops arbitrary: db)
  case Nil
  then show ?case by simp
next
  case (Cons x ops)
  obtain e op where x: "x = (e, op)" by (cases x)
  with Cons.prems obtain cname image_url token where op: "op = Confirm_image cname image_url token"
    by (cases op) auto
  have "map last_result (searches (perform db x)) = map last_result (searches db)"
    by (simp add: x op confirm_keeps_results)
  with Cons.IH [of "perform db x"] Cons.prems show ?case
    by simp
qed

text \<open>
  Claim C5. After every search and every refresh that finds its record, the record of the
  user and card is stored with \<open>confirmed\<close> false; after a confirm-image it is stored with
  \<open>confirmed\<close> true and the result it had. Over any sequence of searches and refreshes,
  from any database, every row that ends confirmed is a row that was there, confirmed,
  at the start: only a confirm-image sets the flag. A confirm-image, and any sequence of
  them, leaves the \<open>last_result\<close> of every row as it was.
\<close>

theorem confirmed_flag_discipline:
  "(get_current_user e db token = Inr current \<longrightarrow>
      (\<exists>row. fetch_search (snd (api_search e db cname reg token)) (users_id current) cname
                = Some row \<and> \<not> confirmed row))
   \<and> (get_current_user e db token = Inr current
        \<and> fetch_search db (users_id current) cname = Some row0 \<longrightarrow>
      (\<exists>row. fetch_search (snd (api_refresh e db cname token)) (users_id current) cname
                = Some row \<and> \<not> confirmed row))
   \<and> (get_current_user e db token = Inr current
        \<and> fetch_search db (users_id current) cname = Some row0 \<longrightarrow>
      (\<exists>row. fetch_search (snd (api_confirm_image e db cname image_url token))
                  (users_id current) cname = Some row
             \<and> confirmed row \<and> last_result row = last_result row0))
   \<and> ((\<forall>x \<in> set ops. \<not> is_confirm (snd x)) \<longrightarrow>
        {r \<in> set (searches (run_ops db ops)). confirmed r}
          \<subseteq> {r \<in> set (searches db). confirmed r})
   \<and> map last_result (searches (snd (api_confirm_image e db cname image_url token)))
        = map last_result (searches db)
   \<and> ((\<forall>x \<in> set ops'. is_confirm (snd x)) \<longrightarrow>
        map last_result (searches (run_ops db ops')) = map last_result (searches db))"
  using search_clears_confirmed [of e db token current cname reg]
    refresh_clears_confirmed [of e db token current cname row0]
    confirm_sets_confirmed [of e db token current cname row0 image_url]
    run_ops_confirmed_subset [of ops _ db]
    confirm_keeps_results [of e db cname image_url token]
    run_ops_confirm_keeps_results [of ops' db]
  by blast

theorem confirmed_flag_discipline_witness:
  "get_current_user (world 9 Raises) (db_with [saved_row ''AU'' (Some 0) True]) ''jwt:ash''
     = Inr ash
   \<and> fetch_search (db_with [saved_row ''AU'' (Some 0) True]) (users_id ash) ''Pikachu''
       = Some (saved_row ''AU'' (Some 0) True)
   \<and> confirmed (saved_row ''AU'' (Some 0) True)
   \<and> (\<exists>row. fetch_search
               (snd (api_search (world 9 Raises) (db_with [saved_row ''AU'' (Some 0) True])
                      ''Pikachu'' ''AU'' ''jwt:ash''))
               (users_id ash) ''Pikachu'' = Some row \<and> \<not> confirmed row)
   \<and> (\<exists>row. fetch_search
               (snd (api_refresh (world 9 Raises) (db_with [saved_row ''AU'' (Some 0) True])
                      ''Pikachu'' ''jwt:ash''))
               (users_id ash) ''Pikachu'' = Some row \<and> \<not> confirmed row)
   \<and> (\<exists>row. fetch_search
               (snd (api_confirm_image (world 9 Raises)
                      (db_with [saved_row ''AU'' (Some 0) False])
                      ''Pikachu'' ''http://img/new.png'' ''jwt:ash''))
               (users_id ash) ''Pikachu'' = Some row \<and> confirmed row
             \<and> last_result row = last_result (saved_row ''AU'' (Some 0) False))
   \<and> {r \<in> set (searches (run_ops (db_with [saved_row ''AU'' (Some 0) False])
                  [(world 9 Raises, Search ''Pikachu'' ''US'' ''jwt:ash''),
                   (world 10 Raises, Refresh ''Pikachu'' ''jwt:ash'')])). confirmed r} = {}
   \<and> map last_result
        (searches (run_ops (db_with [saved_row ''AU'' (Some 0) False])
           [(world 9 Raises, Confirm_image ''Pikachu'' ''http://img/new.png'' ''jwt:ash'')]))
       = [None]"
proof -
  let ?e = "world 9 Raises"
  let ?rowT = "saved_row ''AU'' (Some 0) True"
  let ?rowF = "saved_row ''AU'' (Some 0) False"
  let ?ops = "[(?e, Search ''Pikachu'' ''US'' ''jwt:ash''),
               (world 10 Raises, Refresh ''Pikachu'' ''jwt:ash'')]"
  let ?ops' = "[(?e, Confirm_image ''Pikachu'' ''http://img/new.png'' ''jwt:ash'')]"
  have someT: "fetch_search (db_with [?rowT]) (users_id ash) ''Pikachu'' = Some ?rowT"
    by (simp add: fetch_search_def db_with_sel saved_row_def ash_sel)
  have someF: "fetch_search (db_with [?rowF]) (users_id ash) ''Pikachu'' = Some ?rowF"
    by (simp add: fetch_search_def db_with_sel saved_row_def ash_sel)
  have conf: "confirmed ?rowT" "\<not> confirmed ?rowF" "last_result ?rowF = None"
    by (simp_all add: saved_row_def)
  have ops: "\<forall>x \<in> set ?ops. \<not> is_confirm (snd x)"
    by simp
  have ops': "\<forall>x \<in> set ?ops'. is_confirm (snd x)"
    by simp
  note a = confirmed_flag_discipline [of ?e "db_with [?rowT]" "''jwt:ash''" ash "''Pikachu''"
      "''AU''" ?rowT "''http://img/new.png''" "[]" "[]"]
  note b = confirmed_flag_discipline [of ?e "db_with [?rowF]" "''jwt:ash''" ash "''Pikachu''"
      "''AU''" ?rowF "''http://img/new.png''" ?ops ?ops']
  from a someT get_current_user_ash [of 9 Raises "[?rowT]"]
  have s: "\<exists>row. fetch_search (snd (api_search ?e (db_with [?rowT]) ''Pikachu'' ''AU'' ''jwt:ash''))
               (users_id ash) ''Pikachu'' = Some row \<and> \<not> confirmed row"
    and r: "\<exists>row. fetch_search (snd (api_refresh ?e (db_with [?rowT]) ''Pikachu'' ''jwt:ash''))
               (users_id ash) ''Pikachu'' = Some row \<and> \<not> confirmed row"
    by blast+
  from b someF get_current_user_ash [of 9 Raises "[?rowF]"]
  have c: "\<exists>row. fetch_search
               (snd (api_confirm_image ?e (db_with [?rowF])
                      ''Pikachu'' ''http://img/new.png'' ''jwt:ash''))
               (users_id ash) ''Pikachu'' = Some row \<and> confirmed row
             \<and> last_result row = last_result ?rowF"
    by blast
  from b ops conf(2)
  have d: "{r \<in> set (searches (run_ops (db_with [?rowF]) ?ops)). confirmed r} = {}"
    by (auto simp: db_with_sel)
  from b ops' conf(3)
  have f: "map last_result (searches (run_ops (db_with [?rowF]) ?ops')) = [None]"
    by (simp add: db_with_sel)
  from s r c d f someT conf(1) get_current_user_ash [of 9 Raises "[?rowT]"]
  show ?thesis
    by blast
qed

section \<open>Facts about the aggregation loop\<close>

lemma listing_sel:
  "title (listing t p img) = Some t"
  "price (listing t p img) = p"
  "imageUrl (listing t p img) = img"
  "thumbnailImages (listing t p img) = []"
  by (simp_all add: listing_def)




lemma gather_step_unpriced: "price it = None \<Longrightarrow> gather_step st it = st"
  by (simp add: gather_step_def split: prod.splits)



lemma foldl_gather_step_image:
  "snd (foldl gather_step (g, i) items)
     = (if truthy i then i
        else (case find offers_image items of None \<Rightarrow> i | Some it \<Rightarrow> item_image it))"
proof (induction items arbitrary: g i)
  case Nil
  then show ?case by simp
next
  case (Cons it items)
  obtain g' i' where step: "gather_step (g, i) it = (g', i')"
    by (cases "gather_step (g, i) it")
  have i': "i' = (if \<not> truthy i \<and> offers_image it then item_image it else i)"
    using step by (auto simp: gather_step_def Let_def offers_image_def split: option.splits)
  have ih: "snd (foldl gather_step (g, i) (it # items))
              = (if truthy i' then i'
                 else (case find offers_image items of None \<Rightarrow> i' | Some x \<Rightarrow> item_image x))"
    by (simp add: step Cons.IH)
  show ?case
  proof (cases "truthy i")
    case True
    with ih i' show ?thesis by simp
  next
    case False
    show ?thesis
    proof (cases "offers_image it")
      case True
      then have "truthy (item_image it)" by (simp add: offers_image_def)
      with ih i' False True show ?thesis by simp
    next
      case no: False
      with i' False have "i' = i" by simp
      with ih False no show ?thesis by (simp split: option.splits)
    qed
  qed
qed

lemma gather_loop_image:
  "snd (gather_loop items)
     = (case find offers_image items of None \<Rightarrow> None | Some it \<Rightarrow> item_image it)"
  by (simp add: gather_loop_def foldl_gather_step_image)

lemma foldl_gather_step_skip:
  "price it = None \<Longrightarrow>
     foldl gather_step st (xs @ it # ys) = foldl gather_step st (xs @ ys)"
  by (simp add: gather_step_unpriced)


lemma gather_grades:
  "fst (gather_prices_by_grade e cname reg)
     = fst (gather_loop (fst (ebay_search_items e cname (marketplace_of reg) 50)))"
  by (simp add: gather_prices_by_grade_def split: prod.splits option.splits)



lemma gather_image_fallback:
  assumes "find offers_image (fst (ebay_search_items e cname (marketplace_of reg) 50)) = None"
  shows "fst (snd (gather_prices_by_grade e cname reg)) = fst (image_fallback e cname)
       \<and> snd (snd (gather_prices_by_grade e cname reg))
           = snd (ebay_search_items e cname (marketplace_of reg) 50)
             @ snd (image_fallback e cname)"
proof -
  obtain items reqs where es: "ebay_search_items e cname (marketplace_of reg) 50 = (items, reqs)"
    by (cases "ebay_search_items e cname (marketplace_of reg) 50")
  obtain grades where gl: "gather_loop items = (grades, None)"
    using gather_loop_image [of items] assms es
    by (cases "gather_loop items") simp
  show ?thesis
    by (simp add: gather_prices_by_grade_def es gl split: prod.splits)
qed

lemma ebay_failure_empty:
  assumes "ebay_get e keyword marketplace limit = Raises
           \<or> (\<exists>st body. ebay_get e keyword marketplace limit = Response st body
                 \<and> raise_for_status st)"
  shows "fst (ebay_search_items e keyword marketplace limit) = []"
  using assms by (auto simp: ebay_search_items_def)

lemma average_Nil: "average [] = 0"
  by (simp add: average_def)

section \<open>A failing marketplace\<close>

text \<open>
  Claim C7. When the marketplace request raises, or answers with a status that
  \<open>raise_for_status\<close> rejects, the pipeline returns four empty buckets and the image of the
  fallback providers, whose requests follow the marketplace request; \<open>api_search\<close> then
  raises nothing but what the authentication raises, and answers with all averages 0, all
  price lists empty and the fallback image.
\<close>

theorem marketplace_failure_absorbed:
  assumes "ebay_get e cname (marketplace_of reg) 50 = Raises
           \<or> (\<exists>st body. ebay_get e cname (marketplace_of reg) 50 = Response st body
                 \<and> raise_for_status st)"
  shows "fst (gather_prices_by_grade e cname reg) = (\<lambda>k. [])
       \<and> fst (snd (gather_prices_by_grade e cname reg)) = fst (image_fallback e cname)
       \<and> snd (snd (gather_prices_by_grade e cname reg))
           = snd (ebay_search_items e cname (marketplace_of reg) 50)
             @ snd (image_fallback e cname)
       \<and> fst (api_search e db cname reg token)
           = (case get_current_user e db token of
                Inl exn \<Rightarrow> Inl exn
              | Inr current \<Rightarrow>
                  Inr \<lparr>sr_ok = True,
                       sr_result = \<lparr>avg = (\<lambda>k. 0), prices = (\<lambda>k. [])\<rparr>,
                       sr_image = fst (image_fallback e cname)\<rparr>)"
proof -
  have items: "fst (ebay_search_items e cname (marketplace_of reg) 50) = []"
    using assms by (rule ebay_failure_empty)
  have g: "fst (gather_prices_by_grade e cname reg) = (\<lambda>k. [])"
    by (simp add: gather_grades items gather_loop_Nil)
  have i: "fst (snd (gather_prices_by_grade e cname reg)) = fst (image_fallback e cname)
       \<and> snd (snd (gather_prices_by_grade e cname reg))
           = snd (ebay_search_items e cname (marketplace_of reg) 50)
             @ snd (image_fallback e cname)"
    by (rule gather_image_fallback) (simp add: items)
  obtain grades img reqs where gp: "gather_prices_by_grade e cname reg = (grades, img, reqs)"
    by (cases "gather_prices_by_grade e cname reg")
  from g i gp have "grades = (\<lambda>k. [])" "img = fst (image_fallback e cname)"
    by simp_all
  then have "fst (api_search e db cname reg token)
           = (case get_current_user e db token of
                Inl exn \<Rightarrow> Inl exn
              | Inr current \<Rightarrow>
                  Inr \<lparr>sr_ok = True,
                       sr_result = \<lparr>avg = (\<lambda>k. 0), prices = (\<lambda>k. [])\<rparr>,
                       sr_image = fst (image_fallback e cname)\<rparr>)"
    by (simp add: api_search_def gp Let_def average_Nil split: sum.splits)
  with g i show ?thesis
    by blast
qed

theorem marketplace_failure_absorbed_witness:
  "ebay_get (world 3 (Response 503 None)) ''Pikachu'' (marketplace_of ''AU'') 50
     = Response 503 None
   \<and> raise_for_status 503
   \<and> fst (api_search (world 3 (Response 503 None)) (db_with []) ''Pikachu'' ''AU'' ''jwt:ash'')
       = Inr \<lparr>sr_ok = True, sr_result = \<lparr>avg = (\<lambda>k. 0), prices = (\<lambda>k. [])\<rparr>,
              sr_image = ''http://ddg/pikachu.png''\<rparr>
   \<and> snd (snd (gather_prices_by_grade (world 3 Raises) ''Pikachu'' ''AU''))
       = [Ebay_browse ''Pikachu'' ''EBAY_AU'' 50, Google_images ''Pikachu'',
          Duckduckgo_images ''Pikachu'']"
proof -
  have a: "ebay_get (world 3 (Response 503 None)) ''Pikachu'' (marketplace_of ''AU'') 50
             = Response 503 None"
    by (simp add: world_sel)
  have b: "raise_for_status 503"
    by (simp add: raise_for_status_def)
  have c: "ebay_get (world 3 Raises) ''Pikachu'' (marketplace_of ''AU'') 50 = Raises"
    by (simp add: world_sel)
  from a b have h1: "ebay_get (world 3 (Response 503 None)) ''Pikachu'' (marketplace_of ''AU'') 50
           = Raises
         \<or> (\<exists>st body. ebay_get (world 3 (Response 503 None)) ''Pikachu'' (marketplace_of ''AU'') 50
               = Response st body \<and> raise_for_status st)"
    by blast
  from c have h2: "ebay_get (world 3 Raises) ''Pikachu'' (marketplace_of ''AU'') 50 = Raises
         \<or> (\<exists>st body. ebay_get (world 3 Raises) ''Pikachu'' (marketplace_of ''AU'') 50
               = Response st body \<and> raise_for_status st)"
    by blast
  from marketplace_failure_absorbed [OF h1, of "db_with []" "''jwt:ash''"]
  have s: "fst (api_search (world 3 (Response 503 None)) (db_with []) ''Pikachu'' ''AU'' ''jwt:ash'')
       = Inr \<lparr>sr_ok = True, sr_result = \<lparr>avg = (\<lambda>k. 0), prices = (\<lambda>k. [])\<rparr>,
              sr_image = ''http://ddg/pikachu.png''\<rparr>"
    by (simp add: get_current_user_ash image_fallback_world)
  from marketplace_failure_absorbed [OF h2, of "db_with []" "''jwt:ash''"]
  have r: "snd (snd (gather_prices_by_grade (world 3 Raises) ''Pikachu'' ''AU''))
       = [Ebay_browse ''Pikachu'' ''EBAY_AU'' 50, Google_images ''Pikachu'',
          Duckduckgo_images ''Pikachu'']"
    by (simp add: image_fallback_world ebay_search_items_def world_sel marketplace_of_examples)
  from a b s r show ?thesis
    by simp
qed

section \<open>Price buckets and averages\<close>



section \<open>Facts about image resolution\<close>

lemma ebay_search_items_world:
  "ebay_search_items (world t (Response 200 (Some (Some items)))) keyword marketplace limit
     = (items, [Ebay_browse keyword marketplace limit])"
  by (simp add: ebay_search_items_def world_sel raise_for_status_def)

lemma item_image_eq:
  "item_image it = (if truthy (imageUrl it) then imageUrl it else first_of (thumbnailImages it))"
  by (cases "thumbnailImages it") (simp_all add: item_image_def Let_def)





section \<open>A listing whose price does not parse\<close>

text \<open>
  Claim C3, as the code has it. A listing whose price fails numeric parsing is skipped as
  a whole: its round of the loop changes neither the buckets nor the image, so the
  aggregation of a list of listings is that of the list without it, and the image the
  loop ends with is that of the first listing that has both a parsed price and a
  non-empty image.
\<close>

theorem unpriced_listing_skipped:
  assumes "price it = None"
  shows "gather_step st it = st
       \<and> gather_loop (xs @ it # ys) = gather_loop (xs @ ys)
       \<and> \<not> offers_image it
       \<and> snd (gather_loop (xs @ it # ys))
           = (case find offers_image (xs @ ys) of
                None \<Rightarrow> None
              | Some x \<Rightarrow> item_image x)"
proof -
  have a: "gather_loop (xs @ it # ys) = gather_loop (xs @ ys)"
    unfolding gather_loop_def using assms by (rule foldl_gather_step_skip)
  from a gather_loop_image [of "xs @ ys"] gather_step_unpriced [OF assms, of st] assms
  show ?thesis
    by (simp add: offers_image_def)
qed

theorem unpriced_listing_skipped_witness:
  "price (listing ''Pikachu'' None (Some ''http://img/a.png'')) = None
   \<and> gather_loop [listing ''Pikachu'' None (Some ''http://img/a.png'')] = gather_loop []
   \<and> snd (gather_loop [listing ''Pikachu'' None (Some ''http://img/a.png'')]) = None"
  using unpriced_listing_skipped [of "listing ''Pikachu'' None (Some ''http://img/a.png'')"
      "(\<lambda>k. [], None)" "[]" "[]"]
  by (simp add: listing_sel gather_loop_Nil)

text \<open>
  The only listing has an image and a price that does not parse: its image is not
  captured, and the result image is the one of the fallback provider.
\<close>

theorem unpriced_listing_image_counterexample:
  "price (listing ''Pikachu'' None (Some ''http://img/a.png'')) = None
   \<and> item_image (listing ''Pikachu'' None (Some ''http://img/a.png'')) = Some ''http://img/a.png''
   \<and> fst (snd (gather_prices_by_grade
        (world 3 (Response 200 (Some (Some [listing ''Pikachu'' None (Some ''http://img/a.png'')]))))
        ''Pikachu'' ''AU'')) = ''http://ddg/pikachu.png''"
proof -
  let ?it = "listing ''Pikachu'' None (Some ''http://img/a.png'')"
  let ?e = "world 3 (Response 200 (Some (Some [?it])))"
  have items: "fst (ebay_search_items ?e ''Pikachu'' (marketplace_of ''AU'') 50) = [?it]"
    by (simp add: ebay_search_items_world)
  have "find offers_image [?it] = None"
    by (simp add: offers_image_def listing_sel)
  with items have "fst (snd (gather_prices_by_grade ?e ''Pikachu'' ''AU''))
      = fst (image_fallback ?e ''Pikachu'')"
    using gather_image_fallback [of ?e "''Pikachu''" "''AU''"] by simp
  then show ?thesis
    by (simp add: image_fallback_world listing_sel item_image_eq)
qed

section \<open>Image resolution\<close>




section \<open>Facts about the classifier\<close>

lemma code_less: "code c < 256"
  unfolding code_def by (rule nat_of_char_less_256)

lemma code_lower_char:
  "code (lower_char c) = (if is_upper c then code c + 32 else code c)"
proof (cases "is_upper c")
  case True
  then have "code c + 32 < 256"
    by (auto simp: is_upper_def)
  then have "of_char (char_of (code c + 32)) = code c + 32"
    by (simp add: of_char_of)
  with True show ?thesis
    by (simp add: lower_char_def code_def)
next
  case False
  then show ?thesis by (simp add: lower_char_def)
qed

lemma is_word_lower_char: "is_word (lower_char c) = is_word c"
proof (cases "is_upper c")
  case True
  then show ?thesis
    using code_less [of c] unfolding is_word_def code_lower_char is_upper_def
    by simp arith
next
  case False
  then show ?thesis by (simp add: lower_char_def)
qed

lemma word_after_lower: "word_after (lower s) = word_after s"
  by (cases s) (simp_all add: lower_def is_word_lower_char)

lemma word_before_prev_lower: "word_before (prev_char (lower s)) = word_before (prev_char s)"
  by (simp add: prev_char_def lower_def last_map is_word_lower_char)

lemma lower_append: "lower (xs @ ys) = lower xs @ lower ys"
  by (simp add: lower_def)

lemma search_from_append:
  "run r (if pre = [] then p else Some (last pre), s) \<noteq> [] \<Longrightarrow> search_from r p (pre @ s)"
proof (induction pre arbitrary: p)
  case Nil
  then show ?case by (cases s) simp_all
next
  case (Cons c pre)
  from Cons.prems have "run r (if pre = [] then Some c else Some (last pre), s) \<noteq> []"
    by (cases "pre = []") simp_all
  then have "search_from r (Some c) (pre @ s)"
    by (rule Cons.IH)
  then show ?case by simp
qed

lemma re_search_at:
  "run r (prev_char pre, s) \<noteq> [] \<Longrightarrow> re_search r (pre @ s)"
  unfolding re_search_def prev_char_def by (rule search_from_append)

lemma char_codes:
  "is_word CHR ''p''" "is_word CHR ''b''" "is_word CHR ''c''"
  "is_word CHR ''0''" "is_word CHR ''9''" "is_word CHR ''8''" "is_word CHR ''5''"
  "\<not> is_word CHR ''.''"
  "is_digit CHR ''1''" "is_digit CHR ''0''" "is_digit CHR ''9''" "is_digit CHR ''8''"
  "is_digit CHR ''5''"
  "is_space CHR '' ''"
  by (simp_all add: is_word_def is_digit_def is_space_def code_def)

lemma lower_tokens:
  "lower ''PSA 10'' = ''psa 10''" "lower ''BGS 9.5'' = ''bgs 9.5''" "lower ''CGC-8'' = ''cgc-8''"
  by code_simp+

lemma run_psa_10:
  assumes "\<not> word_before p" and "\<not> word_after post"
  shows "run (grade_pattern ''psa'') (p, ''psa 10'' @ post) \<noteq> []"
  using assms by (simp add: grade_pattern_def lit_def char_codes)

lemma run_bgs_9_5:
  assumes "\<not> word_before p"
  shows "run (grade_pattern ''bgs'') (p, ''bgs 9.5'' @ post) \<noteq> []"
  using assms by (simp add: grade_pattern_def lit_def char_codes)

lemma run_cgc_8:
  assumes "\<not> word_before p" and "\<not> word_after post"
  shows "run (grade_pattern ''cgc'') (p, ''cgc-8'' @ post) \<noteq> []"
  using assms by (simp add: grade_pattern_def lit_def char_codes)

lemma detect_unfold:
  "detect_grade_from_title (Some t)
     = (if t = [] then Raw
        else if re_search (grade_pattern ''psa'') (lower t) then PSA
        else if re_search (grade_pattern ''bgs'') (lower t) then BGS
        else if re_search (grade_pattern ''cgc'') (lower t) then CGC
        else Raw)"
  by (simp add: patterns_def)

lemma search_psa_10:
  assumes "\<not> word_before (prev_char pre)" and "\<not> word_after post"
  shows "re_search (grade_pattern ''psa'') (lower (pre @ ''PSA 10'' @ post))"
proof -
  have "run (grade_pattern ''psa'') (prev_char (lower pre), ''psa 10'' @ lower post) \<noteq> []"
    using assms by (intro run_psa_10) (simp_all add: word_before_prev_lower word_after_lower)
  then have "re_search (grade_pattern ''psa'') (lower pre @ ''psa 10'' @ lower post)"
    by (rule re_search_at)
  then show ?thesis
    by (simp only: lower_append lower_tokens)
qed

lemma search_bgs_9_5:
  assumes "\<not> word_before (prev_char pre)"
  shows "re_search (grade_pattern ''bgs'') (lower (pre @ ''BGS 9.5'' @ post))"
proof -
  have "run (grade_pattern ''bgs'') (prev_char (lower pre), ''bgs 9.5'' @ lower post) \<noteq> []"
    using assms by (intro run_bgs_9_5) (simp_all add: word_before_prev_lower)
  then have "re_search (grade_pattern ''bgs'') (lower pre @ ''bgs 9.5'' @ lower post)"
    by (rule re_search_at)
  then show ?thesis
    by (simp only: lower_append lower_tokens)
qed

lemma search_cgc_8:
  assumes "\<not> word_before (prev_char pre)" and "\<not> word_after post"
  shows "re_search (grade_pattern ''cgc'') (lower (pre @ ''CGC-8'' @ post))"
proof -
  have "run (grade_pattern ''cgc'') (prev_char (lower pre), ''cgc-8'' @ lower post) \<noteq> []"
    using assms by (intro run_cgc_8) (simp_all add: word_before_prev_lower word_after_lower)
  then have "re_search (grade_pattern ''cgc'') (lower pre @ ''cgc-8'' @ lower post)"
    by (rule re_search_at)
  then show ?thesis
    by (simp only: lower_append lower_tokens)
qed

section \<open>Grading tokens in a title\<close>

text \<open>
  Claim C2, as the code has it. A title that contains \<open>PSA 10\<close> with no word character
  right before it and none right after it is classified PSA. A title that contains
  \<open>BGS 9.5\<close> with no word character right before it is classified BGS unless the PSA
  pattern matches it; one that contains \<open>CGC-8\<close> with no word character right before
  or after it is classified CGC unless the PSA or the BGS pattern matches it. A title that
  no pattern matches, the empty title and the absent title are classified raw. The
  patterns are tried in the order PSA, BGS, CGC and the first that matches decides.
\<close>

theorem classifier_tokens:
  "(\<not> word_before (prev_char pre) \<and> \<not> word_after post \<longrightarrow>
      detect_grade_from_title (Some (pre @ ''PSA 10'' @ post)) = PSA)
   \<and> (\<not> word_before (prev_char pre)
        \<and> \<not> re_search (grade_pattern ''psa'') (lower (pre @ ''BGS 9.5'' @ post)) \<longrightarrow>
      detect_grade_from_title (Some (pre @ ''BGS 9.5'' @ post)) = BGS)
   \<and> (\<not> word_before (prev_char pre) \<and> \<not> word_after post
        \<and> \<not> re_search (grade_pattern ''psa'') (lower (pre @ ''CGC-8'' @ post))
        \<and> \<not> re_search (grade_pattern ''bgs'') (lower (pre @ ''CGC-8'' @ post)) \<longrightarrow>
      detect_grade_from_title (Some (pre @ ''CGC-8'' @ post)) = CGC)
   \<and> ((\<forall>x \<in> set patterns. \<not> re_search (snd x) (lower t)) \<longrightarrow>
        detect_grade_from_title (Some t) = Raw)
   \<and> detect_grade_from_title None = Raw
   \<and> detect_grade_from_title (Some []) = Raw
   \<and> map fst patterns = [PSA, BGS, CGC]
   \<and> detect_grade_from_title (Some t)
       = (if t = [] then Raw
          else if re_search (grade_pattern ''psa'') (lower t) then PSA
          else if re_search (grade_pattern ''bgs'') (lower t) then BGS
          else if re_search (grade_pattern ''cgc'') (lower t) then CGC
          else Raw)"
proof -
  have a: "detect_grade_from_title (Some (pre @ ''PSA 10'' @ post)) = PSA"
    if "\<not> word_before (prev_char pre)" "\<not> word_after post"
    using search_psa_10 [OF that] by (simp add: detect_unfold del: detect_grade_from_title.simps)
  have b: "detect_grade_from_title (Some (pre @ ''BGS 9.5'' @ post)) = BGS"
    if "\<not> word_before (prev_char pre)"
      "\<not> re_search (grade_pattern ''psa'') (lower (pre @ ''BGS 9.5'' @ post))"
    using search_bgs_9_5 [OF that(1), of post] that(2)
    by (simp add: detect_unfold del: detect_grade_from_title.simps)
  have c: "detect_grade_from_title (Some (pre @ ''CGC-8'' @ post)) = CGC"
    if "\<not> word_before (prev_char pre)" "\<not> word_after post"
      "\<not> re_search (grade_pattern ''psa'') (lower (pre @ ''CGC-8'' @ post))"
      "\<not> re_search (grade_pattern ''bgs'') (lower (pre @ ''CGC-8'' @ post))"
    using search_cgc_8 [OF that(1,2)] that(3,4)
    by (simp add: detect_unfold del: detect_grade_from_title.simps)
  have d: "detect_grade_from_title (Some t) = Raw"
    if "\<forall>x \<in> set patterns. \<not> re_search (snd x) (lower t)"
    using that by (simp add: patterns_def)
  have e: "map fst patterns = [PSA, BGS, CGC]"
    by (simp add: patterns_def)
  from a b c d e detect_unfold [of t] show ?thesis
    by simp
qed

theorem classifier_tokens_witness:
  "\<not> word_before (prev_char ''Charizard '') \<and> \<not> word_after '' holo''
   \<and> detect_grade_from_title (Some ''Charizard PSA 10 holo'') = PSA
   \<and> \<not> re_search (grade_pattern ''psa'') (lower ''Charizard BGS 9.5 holo'')
   \<and> detect_grade_from_title (Some ''Charizard BGS 9.5 holo'') = BGS
   \<and> \<not> re_search (grade_pattern ''psa'') (lower ''Charizard CGC-8 holo'')
   \<and> \<not> re_search (grade_pattern ''bgs'') (lower ''Charizard CGC-8 holo'')
   \<and> detect_grade_from_title (Some ''Charizard CGC-8 holo'') = CGC
   \<and> \<not> re_search (grade_pattern ''psa'') (lower ''Charizard holo'')
   \<and> \<not> re_search (grade_pattern ''bgs'') (lower ''Charizard holo'')
   \<and> \<not> re_search (grade_pattern ''cgc'') (lower ''Charizard holo'')
   \<and> detect_grade_from_title (Some ''Charizard holo'') = Raw"
proof -
  have l: "\<not> word_before (prev_char ''Charizard '')"
    by (simp add: prev_char_def is_word_def code_def)
  have r: "\<not> word_after '' holo''"
    by (simp add: is_word_def code_def)
  have n1: "\<not> re_search (grade_pattern ''psa'') (lower ''Charizard BGS 9.5 holo'')"
    by code_simp
  have n2: "\<not> re_search (grade_pattern ''psa'') (lower ''Charizard CGC-8 holo'')"
    by code_simp
  have n3: "\<not> re_search (grade_pattern ''bgs'') (lower ''Charizard CGC-8 holo'')"
    by code_simp
  have m: "\<not> re_search (grade_pattern ''psa'') (lower ''Charizard holo'')"
    "\<not> re_search (grade_pattern ''bgs'') (lower ''Charizard holo'')"
    "\<not> re_search (grade_pattern ''cgc'') (lower ''Charizard holo'')"
    by code_simp+
  then have n4: "\<forall>x \<in> set patterns. \<not> re_search (snd x) (lower ''Charizard holo'')"
    by (simp add: patterns_def)
  note main = classifier_tokens [of "''Charizard ''" "'' holo''" "''Charizard holo''"]
  from main l r have "detect_grade_from_title (Some (''Charizard '' @ ''PSA 10'' @ '' holo'')) = PSA"
    by blast
  then have a: "detect_grade_from_title (Some ''Charizard PSA 10 holo'') = PSA"
    by (simp del: detect_grade_from_title.simps)
  from n1 have n1': "\<not> re_search (grade_pattern ''psa'') (lower (''Charizard '' @ ''BGS 9.5'' @ '' holo''))"
    by simp
  from main l n1' have "detect_grade_from_title (Some (''Charizard '' @ ''BGS 9.5'' @ '' holo'')) = BGS"
    by blast
  then have b: "detect_grade_from_title (Some ''Charizard BGS 9.5 holo'') = BGS"
    by (simp del: detect_grade_from_title.simps)
  from n2 n3 have n23: "\<not> re_search (grade_pattern ''psa'') (lower (''Charizard '' @ ''CGC-8'' @ '' holo''))"
    "\<not> re_search (grade_pattern ''bgs'') (lower (''Charizard '' @ ''CGC-8'' @ '' holo''))"
    by simp_all
  from main l r n23 have "detect_grade_from_title (Some (''Charizard '' @ ''CGC-8'' @ '' holo'')) = CGC"
    by blast
  then have c: "detect_grade_from_title (Some ''Charizard CGC-8 holo'') = CGC"
    by (simp del: detect_grade_from_title.simps)
  from main n4 have d: "detect_grade_from_title (Some ''Charizard holo'') = Raw"
    by blast
  from l r a n1 b n2 n3 c m d show ?thesis
    by blast
qed

text \<open>
  Containing the token is not enough: a letter before \<open>PSA 10\<close> or a digit after it
  leaves the title raw, and a title with both \<open>BGS 9.5\<close> and \<open>PSA 10\<close> is classified
  PSA.
\<close>

theorem classifier_substring_counterexample:
  "detect_grade_from_title (Some ''XPSA 10'') = Raw
   \<and> detect_grade_from_title (Some ''PSA 100'') = Raw
   \<and> detect_grade_from_title (Some ''BGS 9.5 PSA 10'') = PSA"
  by code_simp

end
